theory Spec2Isabelle
  imports Complex_Main "HOL-Library.Signed_Division" "HOL-Library.Log_Nat"
begin

unbundle bit_operations_syntax

section \<open>Errors\<close>

text \<open>
  Every \<^verbatim>\<open>throw\<close> of the sources is a value of this type. The constructors carry the
  names the specification gives to the error kinds; the comment gives the message
  of the \<^verbatim>\<open>throw\<close> statement it stands for.
\<close>

datatype error =
    RangeError                    \<comment> \<open>BigInt division by zero\<close>
  | InvalidScalar                 \<comment> \<open>noble: "invalid scalar"\<close>
  | PointInvalidXY                \<comment> \<open>noble: "Point invalid: x or y"\<close>
  | PointNotOnCurve               \<comment> \<open>noble: "Point invalid: not on curve"\<close>
  | NoInverse                     \<comment> \<open>noble: "no inverse"\<close>
  | InvalidInverse                \<comment> \<open>noble: "invalid inverse"\<close>
  | EmptyRing                     \<comment> \<open>"Ring length must be greater than 0"\<close>
  | RingResponseLengthMismatch    \<comment> \<open>"ring and responses length mismatch"\<close>
  | DuplicateRingMember           \<comment> \<open>"Ring contains duplicates"\<close>
  | InvalidPoint "nat option"     \<comment> \<open>invalid point, with its ring index when inside a ring\<close>
  | InvalidParams
  | InvalidResponses
  | UnknownCurve
  | TypeError                     \<comment> \<open>a method call or an operation on \<^verbatim>\<open>undefined\<close>\<close>

section \<open>noble-SECP256k1.js: field arithmetic\<close>

definition B256 :: int where
  "B256 = 2 ^ 256"

definition P :: int where
  "P = B256 - 0x1000003d1"

definition N :: int where
  "N = B256 - 0x14551231950b75fc4402da1732fc9bebf"

definition Gx :: int where
  "Gx = 0x79be667ef9dcbbac55a06295ce870b07029bfcdb2dce28d959f2815b16f81798"

definition Gy :: int where
  "Gy = 0x483ada7726a3c4655da4fbfc0e1108a8fd17b448a68554199c47d08ffb10d4b8"

definition CURVE_a :: int where
  "CURVE_a = 0"

definition CURVE_b :: int where
  "CURVE_b = 7"

text \<open>
  \<^verbatim>\<open>const mod = (a, b = P) => { const r = a % b; return r >= 0n ? r : b + r; }\<close>.
  The BigInt remainder \<^verbatim>\<open>%\<close> truncates towards zero (\<open>smod\<close>) and raises a
  RangeError for a zero divisor. \<open>mod_body\<close> is the body of the arrow function,
  \<open>mod_js\<close> the call with both arguments, \<open>modP\<close> the call with the default modulus.
\<close>

definition mod_body :: "int \<Rightarrow> int \<Rightarrow> int" where
  "mod_body a b = (let r = a smod b in if 0 \<le> r then r else b + r)"

definition mod_js :: "int \<Rightarrow> int \<Rightarrow> error + int" where
  "mod_js a b = (if b = 0 then Inl RangeError else Inr (mod_body a b))"

definition modP :: "int \<Rightarrow> int" where
  "modP a = mod_body a P"

definition crv :: "int \<Rightarrow> int" where
  "crv x = modP (modP (x * x) * x + CURVE_b)"

definition fe :: "int \<Rightarrow> bool" where
  "fe n \<longleftrightarrow> 0 < n \<and> n < P"

definition ge :: "int \<Rightarrow> bool" where
  "ge n \<longleftrightarrow> 0 < n \<and> n < N"

text \<open>
  \<^verbatim>\<open>inv(num, md = P)\<close>: the extended Euclidean loop. \<^verbatim>\<open>b / a\<close> and \<^verbatim>\<open>b % a\<close> are the
  truncating BigInt operations.
\<close>

function inv_loop :: "int \<Rightarrow> int \<Rightarrow> int \<Rightarrow> int \<Rightarrow> int \<Rightarrow> int \<Rightarrow> int \<times> int" where
  "inv_loop a b x y u v =
     (if a \<noteq> 0 then
        (let q = b sdiv a; r = b smod a;
             m = x - u * q; n = y - v * q
         in inv_loop r a u v m n)
      else (b, x))"
  by pat_completeness auto
termination
proof (relation "measure (\<lambda>(a, b, x, y, u, v). nat \<bar>a\<bar>)")
  show "wf (measure (\<lambda>(a, b, x, y, u, v). nat \<bar>a\<bar>))" by simp
next
  fix a b x y u v :: int and q r m n :: int
  assume "a \<noteq> 0" and "r = b smod a"
  then have "\<bar>r\<bar> < \<bar>a\<bar>"
    by (simp add: smod_int_alt_def abs_mult abs_sgn_eq)
  then show "((r, a, u, v, m, n), (a, b, x, y, u, v)) \<in> measure (\<lambda>(a, b, x, y, u, v). nat \<bar>a\<bar>)"
    by simp
qed

definition inv :: "int \<Rightarrow> int \<Rightarrow> error + int" where
  "inv num md =
     (if num = 0 \<or> md \<le> 0 then Inl NoInverse
      else (case inv_loop (mod_body num md) md 0 1 1 0 of
              (b, x) \<Rightarrow> if b = 1 then Inr (mod_body x md) else Inl NoInverse))"

section \<open>noble-SECP256k1.js: class SECP256K1Point\<close>

record SECP256K1Point =
  px :: int
  py :: int
  pz :: int

definition fromAffine :: "int \<times> int \<Rightarrow> SECP256K1Point" where
  "fromAffine p = \<lparr>px = fst p, py = snd p, pz = 1\<rparr>"

definition BASE :: SECP256K1Point where
  "BASE = \<lparr>px = Gx, py = Gy, pz = 1\<rparr>"

definition ZERO :: SECP256K1Point where
  "ZERO = \<lparr>px = 0, py = 1, pz = 0\<rparr>"

definition equals :: "SECP256K1Point \<Rightarrow> SECP256K1Point \<Rightarrow> bool" where
  "equals this other =
     (let X1 = px this; Y1 = py this; Z1 = pz this;
          X2 = px other; Y2 = py other; Z2 = pz other;
          X1Z2 = modP (X1 * Z2); X2Z1 = modP (X2 * Z1);
          Y1Z2 = modP (Y1 * Z2); Y2Z1 = modP (Y2 * Z1)
      in X1Z2 = X2Z1 \<and> Y1Z2 = Y2Z1)"

definition negate :: "SECP256K1Point \<Rightarrow> SECP256K1Point" where
  "negate this = \<lparr>px = px this, py = modP (- py this), pz = pz this\<rparr>"

text \<open>The complete addition formula (Renes, Costello, Batina), step by step.\<close>

definition add :: "SECP256K1Point \<Rightarrow> SECP256K1Point \<Rightarrow> SECP256K1Point" where
  "add this other =
     (let X1 = px this; Y1 = py this; Z1 = pz this;
          X2 = px other; Y2 = py other; Z2 = pz other;
          a = CURVE_a; b = CURVE_b;
          b3 = modP (b * 3);
          t0 = modP (X1 * X2); t1 = modP (Y1 * Y2); t2 = modP (Z1 * Z2); t3 = modP (X1 + Y1);
          t4 = modP (X2 + Y2);
          t3 = modP (t3 * t4);
          t4 = modP (t0 + t1);
          t3 = modP (t3 - t4);
          t4 = modP (X1 + Z1);
          t5 = modP (X2 + Z2);
          t4 = modP (t4 * t5);
          t5 = modP (t0 + t2);
          t4 = modP (t4 - t5);
          t5 = modP (Y1 + Z1);
          X3 = modP (Y2 + Z2);
          t5 = modP (t5 * X3);
          X3 = modP (t1 + t2);
          t5 = modP (t5 - X3);
          Z3 = modP (a * t4);
          X3 = modP (b3 * t2);
          Z3 = modP (X3 + Z3);
          X3 = modP (t1 - Z3);
          Z3 = modP (t1 + Z3);
          Y3 = modP (X3 * Z3);
          t1 = modP (t0 + t0);
          t1 = modP (t1 + t0);
          t2 = modP (a * t2);
          t4 = modP (b3 * t4);
          t1 = modP (t1 + t2);
          t2 = modP (t0 - t2);
          t2 = modP (a * t2);
          t4 = modP (t4 + t2);
          t0 = modP (t1 * t4);
          Y3 = modP (Y3 + t0);
          t0 = modP (t5 * t4);
          X3 = modP (t3 * X3);
          X3 = modP (X3 - t0);
          t0 = modP (t3 * t1);
          Z3 = modP (t5 * Z3);
          Z3 = modP (Z3 + t0)
      in \<lparr>px = X3, py = Y3, pz = Z3\<rparr>)"

definition double :: "SECP256K1Point \<Rightarrow> SECP256K1Point" where
  "double this = add this this"

text \<open>
  The ladder of \<^verbatim>\<open>mul\<close>:
  \<^verbatim>\<open>for (let d = this; n > 0n; d = d.double(), n >>= 1n) {
      if (n & 1n) p = p.add(d); else if (safe) f = f.add(d); }\<close>
  The state is \<open>(p, f)\<close>, the result point and the fake point.
\<close>

function mul_loop ::
  "bool \<Rightarrow> SECP256K1Point \<Rightarrow> int \<Rightarrow> SECP256K1Point \<Rightarrow> SECP256K1Point
     \<Rightarrow> SECP256K1Point \<times> SECP256K1Point" where
  "mul_loop safe d n p f =
     (if 0 < n then
        (if n AND 1 \<noteq> 0 then mul_loop safe (double d) (drop_bit 1 n) (add p d) f
         else if safe then mul_loop safe (double d) (drop_bit 1 n) p (add f d)
         else mul_loop safe (double d) (drop_bit 1 n) p f)
      else (p, f))"
  by pat_completeness auto
termination
  by (relation "measure (\<lambda>(safe, d, n, p, f). nat n)") (auto simp: drop_bit_eq_div)

definition mul :: "SECP256K1Point \<Rightarrow> int \<Rightarrow> bool \<Rightarrow> error + SECP256K1Point" where
  "mul this n safe =
     (if \<not> safe \<and> n = 0 then Inr ZERO
      else if \<not> ge n then Inl InvalidScalar
      else Inr (fst (mul_loop safe this n ZERO BASE)))"

definition toAffine :: "SECP256K1Point \<Rightarrow> error + int \<times> int" where
  "toAffine this =
     (let x = px this; y = py this; z = pz this
      in if equals this ZERO then Inr (0, 0)
         else if z = 1 then Inr (x, y)
         else (case inv z P of
                 Inl e \<Rightarrow> Inl e
               | Inr iz \<Rightarrow>
                   if modP (z * iz) \<noteq> 1 then Inl InvalidInverse
                   else Inr (modP (x * iz), modP (y * iz))))"

definition assertValidity :: "SECP256K1Point \<Rightarrow> error + SECP256K1Point" where
  "assertValidity this =
     (case toAffine this of
        Inl e \<Rightarrow> Inl e
      | Inr (x, y) \<Rightarrow>
          if \<not> fe x \<or> \<not> fe y then Inl PointInvalidXY
          else if modP (y * y) = crv x then Inr this
          else Inl PointNotOnCurve)"

declare inv_loop.simps [simp del] mul_loop.simps [simp del]

subsection \<open>Operation counts of the ladder\<close>

text \<open>
  The ladder again, with the group operations it performs recorded in order: an addition
  into the result point \<open>p\<close>, an addition into the fake point \<open>f\<close>, a doubling of
  \<open>d\<close>. The points computed are those of \<open>mul_loop\<close> (lemma \<open>mul_loop_ops_fst\<close>).
\<close>

datatype group_op = AddAcc | AddFake | Dbl

function mul_loop_ops ::
  "bool \<Rightarrow> SECP256K1Point \<Rightarrow> int \<Rightarrow> SECP256K1Point \<Rightarrow> SECP256K1Point \<Rightarrow> group_op list
     \<Rightarrow> (SECP256K1Point \<times> SECP256K1Point) \<times> group_op list" where
  "mul_loop_ops safe d n p f ops =
     (if 0 < n then
        (if n AND 1 \<noteq> 0 then
           mul_loop_ops safe (double d) (drop_bit 1 n) (add p d) f (ops @ [AddAcc, Dbl])
         else if safe then
           mul_loop_ops safe (double d) (drop_bit 1 n) p (add f d) (ops @ [AddFake, Dbl])
         else mul_loop_ops safe (double d) (drop_bit 1 n) p f (ops @ [Dbl]))
      else ((p, f), ops))"
  by pat_completeness auto
termination
  by (relation "measure (\<lambda>(safe, d, n, p, f, ops). nat n)") (auto simp: drop_bit_eq_div)

declare mul_loop_ops.simps [simp del]

definition mul_ops :: "SECP256K1Point \<Rightarrow> int \<Rightarrow> bool \<Rightarrow> group_op list" where
  "mul_ops this n safe =
     (if \<not> safe \<and> n = 0 then []
      else if \<not> ge n then []
      else snd (mul_loop_ops safe this n ZERO BASE []))"

text \<open>The bits of a scalar, least significant first, and what one safe iteration does on a bit.\<close>

function bits_lsb :: "int \<Rightarrow> bool list" where
  "bits_lsb n = (if 0 < n then odd n # bits_lsb (n div 2) else [])"
  by pat_completeness auto
termination
  by (relation "measure nat") auto

declare bits_lsb.simps [simp del]

fun bit_ops :: "bool \<Rightarrow> group_op list" where
  "bit_ops True = [AddAcc, Dbl]"
| "bit_ops False = [AddFake, Dbl]"

section \<open>curves.js: class Curve\<close>

datatype CurveName = SECP256K1 | ED25519

record Curve =
  curveName :: CurveName
  curveG :: "int \<times> int"
  curveN :: int
  curveP :: int

text \<open>
  The constructor fills the parameters of SECP256K1 and throws for every other name
  (\<open>ED25519\<close> is commented out of the list of supported curves).
\<close>

definition newCurve :: "CurveName \<Rightarrow> error + Curve" where
  "newCurve nm =
     (case nm of
        SECP256K1 \<Rightarrow> Inr \<lparr>curveName = nm, curveG = (Gx, Gy), curveN = N, curveP = P\<rparr>
      | _ \<Rightarrow> Inl UnknownCurve)"

definition secp256k1 :: Curve where
  "secp256k1 = \<lparr>curveName = SECP256K1, curveG = (Gx, Gy), curveN = N, curveP = P\<rparr>"

text \<open>
  Modelled from the spec: \<^verbatim>\<open>modulo\<close> of \<^verbatim>\<open>./utils\<close>, which is not among the sources; the
  modular reduction helper of FieldMath, the canonical residue for a positive modulus.
\<close>

definition modulo :: "int \<Rightarrow> int \<Rightarrow> int" where
  "modulo a n = a mod n"

definition isOnCurve :: "Curve \<Rightarrow> int \<times> int \<Rightarrow> bool" where
  "isOnCurve this point =
     (let x = fst point; y = snd point
      in case curveName this of
           SECP256K1 \<Rightarrow>
             if x \<ge> curveP this \<or> y \<ge> curveP this \<or> x \<le> 0 \<or> y \<le> 0 then False
             else modulo (x ^ 3 + 7 - y ^ 2) (curveP this) = 0
         | _ \<Rightarrow> False)"

section \<open>Ring validation\<close>

text \<open>A ring member as callers hand it over: the curve it is tagged with and its affine coordinates.\<close>

record Point =
  ptCurve :: CurveName
  ptX :: int
  ptY :: int

text \<open>
  Modelled from the spec: \<^verbatim>\<open>checkPoint\<close> and \<^verbatim>\<open>checkRing\<close>, of which the sources hold the
  declarations and the tests only. \<^verbatim>\<open>checkPoint\<close> fails with InvalidPoint if the
  coordinates are outside \<open>(0, P)\<close> or the curve equation fails, or if the point is
  tagged with another curve. \<^verbatim>\<open>checkRing\<close> fails with EmptyRing if the ring is empty and
  \<open>allowEmpty\<close> is false, with DuplicateRingMember if any two entries are affine-equal,
  with InvalidPoint (wrapping the offending index) if an entry fails \<^verbatim>\<open>checkPoint\<close>, in
  the order in which the specification and the declaration list the three failures.
\<close>

definition validPoint :: "Curve \<Rightarrow> Point \<Rightarrow> bool" where
  "validPoint curve p \<longleftrightarrow> ptCurve p = curveName curve \<and> isOnCurve curve (ptX p, ptY p)"

definition checkPoint :: "Point \<Rightarrow> Curve \<Rightarrow> error + unit" where
  "checkPoint p curve = (if validPoint curve p then Inr () else Inl (InvalidPoint None))"

fun firstInvalid :: "Curve \<Rightarrow> Point list \<Rightarrow> nat \<Rightarrow> nat option" where
  "firstInvalid curve [] i = None"
| "firstInvalid curve (p # ps) i =
     (if validPoint curve p then firstInvalid curve ps (Suc i) else Some i)"

definition checkRing :: "Point list \<Rightarrow> Curve \<Rightarrow> bool \<Rightarrow> error + unit" where
  "checkRing ring curve allowEmpty =
     (if ring = [] \<and> \<not> allowEmpty then Inl EmptyRing
      else if \<not> distinct ring then Inl DuplicateRingMember
      else (case firstInvalid curve ring 0 of
              Some i \<Rightarrow> Inl (InvalidPoint (Some i))
            | None \<Rightarrow> Inr ()))"

text \<open>The identity as a ring member: the affine form of \<open>ZERO\<close>, tagged with the curve.\<close>

definition idPoint :: "CurveName \<Rightarrow> Point" where
  "idPoint nm = \<lparr>ptCurve = nm, ptX = 0, ptY = 0\<rparr>"

section \<open>The ring signature protocol: class RingSignature\<close>

text \<open>
  The scalar-response implementation of the protocol (the compiled class: \<^verbatim>\<open>sign\<close>,
  \<^verbatim>\<open>partialSign\<close>, \<^verbatim>\<open>combine\<close>, \<^verbatim>\<open>verify\<close>, \<^verbatim>\<open>signature\<close>, \<^verbatim>\<open>computeC\<close>).

  The class \<^verbatim>\<open>Point\<close> and the hash library are not among the sources. They are the
  parameters of the model, collected in a record: the generator \<^verbatim>\<open>curve.GtoPoint()\<close>,
  the order \<^verbatim>\<open>curve.N\<close>, the methods \<^verbatim>\<open>mult\<close>, \<^verbatim>\<open>add\<close>, \<^verbatim>\<open>equals\<close> and
  \<^verbatim>\<open>toString\<close> of a point, \<^verbatim>\<open>keccak256\<close>, and \<open>hashToBigInt s\<close> for
  \<^verbatim>\<open>BigInt("0x" + keccak256(s))\<close>. The point methods may throw.
\<close>

record 'p backend =
  curveGen :: 'p
  curveOrder :: int
  pointMult :: "'p \<Rightarrow> int \<Rightarrow> error + 'p"
  pointAdd :: "'p \<Rightarrow> 'p \<Rightarrow> error + 'p"
  pointEquals :: "'p \<Rightarrow> 'p \<Rightarrow> bool"
  pointToString :: "'p \<Rightarrow> string"
  keccak256 :: "string \<Rightarrow> string"
  hashToBigInt :: "string \<Rightarrow> int"

text \<open>
  A ring holds point objects. \<^verbatim>\<open>new Set(ring)\<close> tells objects apart by reference, so an
  entry of a ring is the reference of the object together with the point it holds.
\<close>

type_synonym 'p pointRef = "nat \<times> 'p"

text \<open>Sequencing of computations that may throw.\<close>

definition bindE :: "error + 'a \<Rightarrow> ('a \<Rightarrow> error + 'b) \<Rightarrow> error + 'b" where
  "bindE m f = (case m of Inl e \<Rightarrow> Inl e | Inr x \<Rightarrow> f x)"

text \<open>
  \<^verbatim>\<open>xs[i]\<close>: an index past the end reads \<^verbatim>\<open>undefined\<close>, on which the method call or the
  BigInt arithmetic that follows throws.
\<close>

definition nth_js :: "'a list \<Rightarrow> nat \<Rightarrow> error + 'a" where
  "nth_js xs i = (if i < length xs then Inr (xs ! i) else Inl TypeError)"

text \<open>\<^verbatim>\<open>Array.prototype.toString\<close>, which \<^verbatim>\<open>ring + messageDigest\<close> calls: the elements joined by commas.\<close>

fun join :: "string \<Rightarrow> string list \<Rightarrow> string" where
  "join sep [] = []"
| "join sep [s] = s"
| "join sep (s # t # ss) = s @ sep @ join sep (t # ss)"

definition ringToString :: "'p backend \<Rightarrow> 'p pointRef list \<Rightarrow> string" where
  "ringToString B ring = join '','' (map (\<lambda>p. pointToString B (snd p)) ring)"

record 'p RingSignature =
  sigMessage :: string
  sigRing :: "'p pointRef list"
  sigC :: int
  sigResponses :: "int list"

record 'p PartialSignature =
  psMessage :: string
  psRing :: "'p pointRef list"
  psC :: int
  psCpi :: int
  psResponses :: "int list"
  psPi :: nat
  psAlpha :: int

record 'p RawSignature =
  rawRing :: "'p pointRef list"
  rawPi :: nat
  rawCees :: "int list"
  rawAlpha :: int
  rawResponses :: "int list"

text \<open>
  The random draws of one call, in the order the code makes them: \<^verbatim>\<open>randomBigint(curve.N)\<close>
  for \<open>alpha\<close>, \<^verbatim>\<open>getRandomSecuredNumber(0, ring.length - 1)\<close> for the signer index, the
  \<open>i\<close>-th \<^verbatim>\<open>randomBigint(curve.N)\<close> of the responses loop, and \<^verbatim>\<open>randomBigint(curve.N)\<close>
  for \<open>c\<close> in the empty-ring branch. The two generators are not among the sources; the
  ranges of their results (\<open>[1, N-1]\<close>, and from 0 to the length of the ring less one)
  are hypotheses of the theorems that need them.
\<close>

record draws =
  rAlpha :: int
  rPi :: nat
  rResponses :: "nat \<Rightarrow> int"
  rC :: int

text \<open>The constructor (\<open>safeMode\<close> is false at every call of the class).\<close>

definition newRingSignature ::
  "string \<Rightarrow> 'p pointRef list \<Rightarrow> int \<Rightarrow> int list \<Rightarrow> error + 'p RingSignature" where
  "newRingSignature message ring c responses =
     (if length ring \<noteq> length responses then Inl RingResponseLengthMismatch
      else Inr \<lparr>sigMessage = message, sigRing = ring, sigC = c, sigResponses = responses\<rparr>)"

text \<open>
  Modelled from the spec: \<^verbatim>\<open>piSignature\<close> and \<^verbatim>\<open>verifyPiSignature\<close>, of which the sources
  hold the declarations only. \<^verbatim>\<open>piSignature(alpha, c, privateKey, curve)\<close> returns
  \<open>(alpha - c * privateKey) mod N\<close> and fails with InvalidParams if the private key is
  0 or at least \<open>N\<close>. \<^verbatim>\<open>verifyPiSignature(alpha, signerPubKey, c, piSignature, curve)\<close>
  accepts iff \<open>G * response + signerPubKey * c\<close> equals \<open>G * alpha\<close>.
\<close>

definition piSignature :: "int \<Rightarrow> int \<Rightarrow> int \<Rightarrow> int \<Rightarrow> error + int" where
  "piSignature alpha c signerPrivKey n =
     (if signerPrivKey = 0 \<or> signerPrivKey \<ge> n then Inl InvalidParams
      else Inr (modulo (alpha - c * signerPrivKey) n))"

definition verifyPiSignature :: "'p backend \<Rightarrow> int \<Rightarrow> 'p \<Rightarrow> int \<Rightarrow> int \<Rightarrow> error + bool" where
  "verifyPiSignature B alpha signerPubKey c piSig =
     bindE (pointMult B (curveGen B) piSig) (\<lambda>gr.
     bindE (pointMult B signerPubKey c) (\<lambda>kc.
     bindE (pointAdd B gr kc) (\<lambda>lhs.
     bindE (pointMult B (curveGen B) alpha) (\<lambda>rhs.
     Inr (pointEquals B lhs rhs)))))"

text \<open>
  The compiled code does not check a call against the types of the declaration: an
  argument is whatever value the caller passes, a bigint or a point object.
  Modelled from the spec: the body of \<^verbatim>\<open>verifyPiSignature\<close> on such values,
  \<^verbatim>\<open>G.mult(piSignature).add(signerPubKey.mult(c)).equals(G.mult(alpha))\<close>, evaluated from
  left to right. A bigint has no method \<^verbatim>\<open>mult\<close>, so calling it throws a TypeError; a
  scalar that is not a bigint is refused by the scalar multiplication (\<^verbatim>\<open>ge\<close> of the
  curve backend tests \<^verbatim>\<open>typeof n === "bigint"\<close> first).
\<close>

datatype 'p jsValue = BigIntV int | PointV 'p

definition mult_js :: "'p backend \<Rightarrow> 'p jsValue \<Rightarrow> 'p jsValue \<Rightarrow> error + 'p" where
  "mult_js B receiver scalar =
     (case receiver of
        BigIntV n \<Rightarrow> Inl TypeError
      | PointV p \<Rightarrow> (case scalar of
                      BigIntV k \<Rightarrow> pointMult B p k
                    | PointV q \<Rightarrow> Inl InvalidScalar))"

definition verifyPiSignature_js ::
  "'p backend \<Rightarrow> 'p jsValue \<Rightarrow> 'p jsValue \<Rightarrow> 'p jsValue \<Rightarrow> 'p jsValue \<Rightarrow> error + bool" where
  "verifyPiSignature_js B alpha signerPubKey c piSig =
     bindE (mult_js B (PointV (curveGen B)) piSig) (\<lambda>gr.
     bindE (mult_js B signerPubKey c) (\<lambda>kc.
     bindE (pointAdd B gr kc) (\<lambda>lhs.
     bindE (mult_js B (PointV (curveGen B)) alpha) (\<lambda>rhs.
     Inr (pointEquals B lhs rhs)))))"

text \<open>curves.js: \<^verbatim>\<open>derivePubKey(privateKey, curve) = curve.GtoPoint().mult(privateKey)\<close>.\<close>

definition derivePubKey :: "'p backend \<Rightarrow> int \<Rightarrow> error + 'p" where
  "derivePubKey B privateKey = pointMult B (curveGen B) privateKey"

definition computeC ::
  "'p backend \<Rightarrow> 'p pointRef list \<Rightarrow> string \<Rightarrow> 'p \<Rightarrow> int \<Rightarrow> int \<Rightarrow> int \<Rightarrow> 'p \<Rightarrow> error + int" where
  "computeC B ring message G n r previousC previousPubKey =
     bindE (pointMult B G r) (\<lambda>gr.
     bindE (pointMult B previousPubKey previousC) (\<lambda>kc.
     bindE (pointAdd B gr kc) (\<lambda>s.
     Inr (modulo (hashToBigInt B (ringToString B ring @ message @ pointToString B s)) n))))"

text \<open>
  \<^verbatim>\<open>for (let i = pi + 2; i < ring.length; i++)
      cValuesPI1N.push(computeC(ring, messageDigest, G, curve.N,
                                responses[i - 1], cValuesPI1N[i - pi - 2], ring[i - 1]));\<close>
\<close>

function loopPI1N ::
  "'p backend \<Rightarrow> 'p pointRef list \<Rightarrow> string \<Rightarrow> 'p \<Rightarrow> int \<Rightarrow> int list \<Rightarrow> nat \<Rightarrow> nat \<Rightarrow> int list
     \<Rightarrow> error + int list" where
  "loopPI1N B ring md G n responses pi' i cValuesPI1N =
     (if i < length ring then
        bindE (nth_js responses (i - 1)) (\<lambda>r.
        bindE (nth_js cValuesPI1N (i - pi' - 2)) (\<lambda>prevC.
        bindE (nth_js ring (i - 1)) (\<lambda>prevK.
        bindE (computeC B ring md G n r prevC (snd prevK)) (\<lambda>c.
        loopPI1N B ring md G n responses pi' (Suc i) (cValuesPI1N @ [c])))))
      else Inr cValuesPI1N)"
  by pat_completeness auto
termination
  by (relation "measure (\<lambda>(B, ring, md, G, n, responses, pi', i, cs). length ring - i)") auto

text \<open>
  \<^verbatim>\<open>for (let i = 1; i < pi + 1; i++)
      cValues0PI[i] = computeC(ring, messageDigest, G, curve.N,
                               responses[i - 1], cValues0PI[i - 1], ring[i - 1]);\<close>
  An assignment at the index that is the length of the array appends; an assignment past it
  would leave holes, which never happens here (the array starts with one element and
  \<open>i\<close> with 1): the model keeps the array as it is in that case.
\<close>

definition set_js :: "'a list \<Rightarrow> nat \<Rightarrow> 'a \<Rightarrow> 'a list" where
  "set_js xs i v = (if i < length xs then xs[i := v] else if i = length xs then xs @ [v] else xs)"

function loop0PI ::
  "'p backend \<Rightarrow> 'p pointRef list \<Rightarrow> string \<Rightarrow> 'p \<Rightarrow> int \<Rightarrow> int list \<Rightarrow> nat \<Rightarrow> nat \<Rightarrow> int list
     \<Rightarrow> error + int list" where
  "loop0PI B ring md G n responses pi' i cValues0PI =
     (if i < pi' + 1 then
        bindE (nth_js responses (i - 1)) (\<lambda>r.
        bindE (nth_js cValues0PI (i - 1)) (\<lambda>prevC.
        bindE (nth_js ring (i - 1)) (\<lambda>prevK.
        bindE (computeC B ring md G n r prevC (snd prevK)) (\<lambda>c.
        loop0PI B ring md G n responses pi' (Suc i) (set_js cValues0PI i c)))))
      else Inr cValues0PI)"
  by pat_completeness auto
termination
  by (relation "measure (\<lambda>(B, ring, md, G, n, responses, pi', i, cs). pi' + 1 - i)") auto

text \<open>
  \<^verbatim>\<open>signature(curve, ring, signerKey, message)\<close>. The signer key is a private key
  (\<open>Inl\<close>, a bigint), from which the public key is derived into a new object with the
  reference \<open>newRef\<close>, or a public key object (\<open>Inr\<close>).
\<close>

definition signature ::
  "'p backend \<Rightarrow> 'p pointRef list \<Rightarrow> int + 'p pointRef \<Rightarrow> string \<Rightarrow> draws \<Rightarrow> nat
     \<Rightarrow> error + 'p RawSignature" where
  "signature B ring0 signerKey message rnd newRef =
     (let G = curveGen B;
          messageDigest = keccak256 B message;
          alpha = rAlpha rnd
      in bindE (case signerKey of
                  Inl priv \<Rightarrow> bindE (derivePubKey B priv) (\<lambda>K. Inr (newRef, K))
                | Inr pub \<Rightarrow> Inr pub) (\<lambda>signerPubKey.
         let pi' = rPi rnd;
             ring = take pi' ring0 @ [signerPubKey] @ drop pi' ring0
         in if length (remdups (map fst ring)) \<noteq> length ring then Inl DuplicateRingMember
            else
              let responses = map (rResponses rnd) [0..<length ring]
              in bindE (pointMult B G alpha) (\<lambda>ga.
                 let seed = modulo (hashToBigInt B
                              (ringToString B ring @ messageDigest @ pointToString B ga))
                              (curveOrder B)
                 in bindE (loopPI1N B ring messageDigest G (curveOrder B) responses pi' (pi' + 2) [seed])
                      (\<lambda>cValuesPI1N.
                    bindE (nth_js responses (length responses - 1)) (\<lambda>r.
                    bindE (nth_js cValuesPI1N (length cValuesPI1N - 1)) (\<lambda>prevC.
                    bindE (nth_js ring (length ring - 1)) (\<lambda>prevK.
                    bindE (computeC B ring messageDigest G (curveOrder B) r prevC (snd prevK)) (\<lambda>c0.
                    bindE (loop0PI B ring messageDigest G (curveOrder B) responses pi' 1 [c0])
                      (\<lambda>cValues0PI.
                    Inr \<lparr>rawRing = ring, rawPi = pi', rawCees = cValues0PI @ cValuesPI1N,
                         rawAlpha = alpha, rawResponses = responses\<rparr>)))))))))"

text \<open>
  \<^verbatim>\<open>sign(ring, signerPrivateKey, message, curve)\<close>. The branch for the curve named ED25519
  is not modelled: \<^verbatim>\<open>new Curve\<close> accepts no such name.
\<close>

definition sign ::
  "'p backend \<Rightarrow> 'p pointRef list \<Rightarrow> int \<Rightarrow> string \<Rightarrow> draws \<Rightarrow> nat \<Rightarrow> error + 'p RingSignature" where
  "sign B ring signerPrivateKey message rnd newRef =
     (if length ring = 0 then
        (let c = rC rnd;
             alpha = modulo (2 * c + 1) (curveOrder B)
         in bindE (piSignature alpha c signerPrivateKey (curveOrder B)) (\<lambda>sig.
            bindE (pointMult B (curveGen B) signerPrivateKey) (\<lambda>K.
            newRingSignature message [(newRef, K)] c [sig])))
      else
        bindE (signature B ring (Inl signerPrivateKey) message rnd newRef) (\<lambda>rawSignature.
        bindE (nth_js (rawCees rawSignature) (rawPi rawSignature)) (\<lambda>cpi.
        bindE (piSignature (rawAlpha rawSignature) cpi signerPrivateKey (curveOrder B))
          (\<lambda>signerResponse.
        bindE (nth_js (rawCees rawSignature) 0) (\<lambda>c0.
        newRingSignature message (rawRing rawSignature) c0
          (take (rawPi rawSignature) (rawResponses rawSignature) @ [signerResponse]
             @ drop (rawPi rawSignature + 1) (rawResponses rawSignature)))))))"

text \<open>
  \<^verbatim>\<open>partialSign(ring, message, signerPubKey, curve)\<close>. No new object is made for the signer key,
  so the reference handed to \<^verbatim>\<open>signature\<close> is not used.
\<close>

definition partialSign ::
  "'p backend \<Rightarrow> 'p pointRef list \<Rightarrow> string \<Rightarrow> 'p pointRef \<Rightarrow> draws
     \<Rightarrow> error + 'p PartialSignature" where
  "partialSign B ring message signerPubKey rnd =
     (if length ring = 0 then Inl EmptyRing
      else
        bindE (signature B ring (Inr signerPubKey) message rnd 0) (\<lambda>rawSignature.
        bindE (nth_js (rawCees rawSignature) 0) (\<lambda>c0.
        bindE (nth_js (rawCees rawSignature) (rawPi rawSignature)) (\<lambda>cpi.
        Inr \<lparr>psMessage = message, psRing = rawRing rawSignature, psC = c0, psCpi = cpi,
             psResponses = rawResponses rawSignature, psPi = rawPi rawSignature,
             psAlpha = rawAlpha rawSignature\<rparr>))))"

definition combine :: "'p PartialSignature \<Rightarrow> int \<Rightarrow> error + 'p RingSignature" where
  "combine partialSig signerResponse =
     newRingSignature (psMessage partialSig) (psRing partialSig) (psC partialSig)
       (take (psPi partialSig) (psResponses partialSig) @ [signerResponse]
          @ drop (psPi partialSig + 1) (psResponses partialSig))"

text \<open>
  \<^verbatim>\<open>for (let i = 2; i < this.ring.length; i++)
      lastComputedCp = computeC(this.ring, messageDigest, G, this.curve.N,
                                this.responses[i - 1], lastComputedCp, this.ring[i - 1]);\<close>
\<close>

function verify_loop ::
  "'p backend \<Rightarrow> 'p pointRef list \<Rightarrow> string \<Rightarrow> 'p \<Rightarrow> int \<Rightarrow> int list \<Rightarrow> nat \<Rightarrow> int
     \<Rightarrow> error + int" where
  "verify_loop B ring md G n responses i lastComputedCp =
     (if i < length ring then
        bindE (nth_js responses (i - 1)) (\<lambda>r.
        bindE (nth_js ring (i - 1)) (\<lambda>prevK.
        bindE (computeC B ring md G n r lastComputedCp (snd prevK)) (\<lambda>c.
        verify_loop B ring md G n responses (Suc i) c)))
      else Inr lastComputedCp)"
  by pat_completeness auto
termination
  by (relation "measure (\<lambda>(B, ring, md, G, n, responses, i, c). length ring - i)") auto

text \<open>
  \<^verbatim>\<open>verify()\<close>. For a ring of one member the compiled code calls
  \<^verbatim>\<open>verifyPiSignature(this.ring[0], this.responses[0], modulo(2n * this.c + 1n, N), this.c, curve)\<close>,
  while the declaration lists \<^verbatim>\<open>(alpha, signerPubKey, c, piSignature, curve)\<close>: the public
  key arrives as \<open>alpha\<close>, the response as the public key of the signer,
  \<open>(2c + 1) mod N\<close> as the challenge and the challenge as the response.
\<close>

definition verify :: "'p backend \<Rightarrow> 'p RingSignature \<Rightarrow> error + bool" where
  "verify B this =
     (let ring = sigRing this; responses = sigResponses this; c = sigC this
      in if length ring = 0 then Inl EmptyRing
         else if length ring \<noteq> length responses then Inl RingResponseLengthMismatch
         else
           let G = curveGen B
           in if length ring > 1 then
                (let messageDigest = keccak256 B (sigMessage this)
                 in bindE (nth_js responses 0) (\<lambda>r0.
                    bindE (nth_js ring 0) (\<lambda>k0.
                    bindE (computeC B ring messageDigest G (curveOrder B) r0 c (snd k0)) (\<lambda>c1.
                    bindE (verify_loop B ring messageDigest G (curveOrder B) responses 2 c1)
                      (\<lambda>lastComputedCp.
                    bindE (nth_js responses (length responses - 1)) (\<lambda>rn.
                    bindE (nth_js ring (length ring - 1)) (\<lambda>kn.
                    bindE (computeC B ring messageDigest G (curveOrder B) rn lastComputedCp (snd kn))
                      (\<lambda>c0'.
                    Inr (c = c0')))))))))
              else
                bindE (nth_js ring 0) (\<lambda>k0.
                bindE (nth_js responses 0) (\<lambda>r0.
                verifyPiSignature_js B (PointV (snd k0)) (BigIntV r0)
                  (BigIntV (modulo (2 * c + 1) (curveOrder B))) (BigIntV c))))"

declare loopPI1N.simps [simp del] loop0PI.simps [simp del] verify_loop.simps [simp del]

subsection \<open>The curve backend\<close>

text \<open>
  Modelled from the spec: the class \<^verbatim>\<open>Point\<close> on SECP256K1, which wraps the curve backend
  (a point may be held in the internal projective coordinates): \<^verbatim>\<open>mult\<close> is the scalar
  multiplication of the backend, \<^verbatim>\<open>mul(n)\<close> in its default safe mode, which fails with
  InvalidScalar unless the scalar is in \<open>[1, N-1]\<close>; \<^verbatim>\<open>add\<close> is the group law; equality is
  that of the affine coordinates. The string form of a point and the hash functions
  remain parameters.
\<close>

definition noble ::
  "(SECP256K1Point \<Rightarrow> string) \<Rightarrow> (string \<Rightarrow> string) \<Rightarrow> (string \<Rightarrow> int) \<Rightarrow> SECP256K1Point backend" where
  "noble ts kec hb =
     \<lparr>curveGen = BASE, curveOrder = N,
      pointMult = (\<lambda>p k. mul p k True),
      pointAdd = (\<lambda>p q. Inr (add p q)),
      pointEquals = equals,
      pointToString = ts, keccak256 = kec, hashToBigInt = hb\<rparr>"

text \<open>
  For closed evaluations the remaining collaborators are fixed to simple functions: every
  point prints as \<open>P\<close>, the digest of a message is the message, and the hash number of a
  string is its length. No statement below depends on this choice beyond the values
  shown.
\<close>

definition sampleBackend :: "SECP256K1Point backend" where
  "sampleBackend = noble (\<lambda>p. ''P'') (\<lambda>s. s) (\<lambda>s. int (length s))"

definition sampleDraws :: draws where
  "sampleDraws = \<lparr>rAlpha = 1, rPi = 0, rResponses = (\<lambda>i. 1), rC = 1\<rparr>"

text \<open>The errors that the point operations of a backend can raise.\<close>

definition opErrors :: "'p backend \<Rightarrow> error set" where
  "opErrors B = {e. (\<exists>p k. pointMult B p k = Inl e) \<or> (\<exists>p q. pointAdd B p q = Inl e)}"

section \<open>The duplicate check of the older class\<close>

text \<open>
  \<^verbatim>\<open>sign\<close> and \<^verbatim>\<open>partialSign\<close> of the class in \<^verbatim>\<open>src/ringSignature.ts\<close>, where a point is
  a pair of coordinates, look for duplicates coordinate by coordinate:
  \<^verbatim>\<open>for (let i = 0; i < ring.length; i++)
      for (let j = i + 1; j < ring.length; j++)
        if (ring[i][0] === ring[j][0] && ring[i][1] === ring[j][1])
          throw new Error("Ring contains duplicate public keys");\<close>
  The result \<open>True\<close> stands for the \<^verbatim>\<open>throw\<close>.
\<close>

function dupInner :: "(int \<times> int) list \<Rightarrow> nat \<Rightarrow> nat \<Rightarrow> bool" where
  "dupInner ring i j =
     (if j < length ring then
        (if fst (ring ! i) = fst (ring ! j) \<and> snd (ring ! i) = snd (ring ! j) then True
         else dupInner ring i (Suc j))
      else False)"
  by pat_completeness auto
termination
  by (relation "measure (\<lambda>(ring, i, j). length ring - j)") auto

function dupOuter :: "(int \<times> int) list \<Rightarrow> nat \<Rightarrow> bool" where
  "dupOuter ring i =
     (if i < length ring then
        (if dupInner ring i (Suc i) then True else dupOuter ring (Suc i))
      else False)"
  by pat_completeness auto
termination
  by (relation "measure (\<lambda>(ring, i). length ring - i)") auto

declare dupInner.simps [simp del] dupOuter.simps [simp del]

section \<open>The challenge chain and the group of the curve\<close>







text \<open>
  The smallest instance, used to run the protocol on concrete inputs: the integers modulo
  11 under addition, generated by 1, with the scalar check of the curve backend; a point
  prints in unary, the digest of a message is the message and the hash number of a string
  is its length.
\<close>

definition toyBackend :: "int backend" where
  "toyBackend =
     \<lparr>curveGen = 1, curveOrder = 11,
      pointMult = (\<lambda>p k. if 0 < k \<and> k < 11 then Inr ((p * k) mod 11) else Inl InvalidScalar),
      pointAdd = (\<lambda>p q. Inr ((p + q) mod 11)),
      pointEquals = (\<lambda>p q. p = q),
      pointToString = (\<lambda>p. replicate (nat p) CHR ''|''),
      keccak256 = (\<lambda>s. s),
      hashToBigInt = (\<lambda>s. int (length s))\<rparr>"


definition toyDraws :: draws where
  "toyDraws = \<lparr>rAlpha = 6, rPi = 1, rResponses = (\<lambda>i. int i + 2), rC = 3\<rparr>"


section \<open>Properties of the field and curve arithmetic\<close>

lemma mod_body_eq: "0 < b \<Longrightarrow> mod_body a b = a mod b"
proof -
  assume b: "0 < b"
  have lt: "a mod b < b" using b by simp
  have ge: "0 \<le> a mod b" using b by simp
  show ?thesis
    using b lt ge
    by (auto simp: mod_body_def Let_def signed_modulo_int_eq_modulo_int sgn_if)
qed

lemma P_pos: "0 < P"
  by (simp add: P_def B256_def)

lemma N_pos: "0 < N"
  by (simp add: N_def B256_def)

lemma modP_eq: "modP a = a mod P"
  by (simp add: modP_def mod_body_eq P_pos)

text \<open>
  C10. The reduction helper \<^verbatim>\<open>mod\<close> is total and canonical: for every integer \<open>a\<close>, also a
  negative one, and every modulus \<open>b > 0\<close> it returns (it does not raise) a value in
  \<open>[0, b)\<close> that is congruent to \<open>a\<close> modulo \<open>b\<close>.
\<close>

theorem mod_total_canonical:
  assumes "0 < b"
  shows "\<exists>r. mod_js a b = Inr r \<and> 0 \<le> r \<and> r < b \<and> b dvd (r - a) \<and> r = a mod b"
proof -
  have "mod_js a b = Inr (a mod b)"
    using assms by (simp add: mod_js_def mod_body_eq)
  moreover have "b dvd (a mod b - a)"
    by (metis dvd_minus_mod dvd_minus_iff minus_diff_eq)
  ultimately show ?thesis
    using assms by simp
qed

theorem mod_total_canonical_witness:
  "(0::int) < 7 \<and> mod_js (- 3) 7 = Inr 4 \<and> mod_js (- 3) P = Inr (P - 3)"
proof -
  have h: "(0::int) < 7" by simp
  obtain r where r: "mod_js (- 3) 7 = Inr r" "r = (- 3) mod 7"
    using mod_total_canonical [OF h, of "- 3"] by blast
  have "mod_js (- 3) P = Inr ((- 3) mod P)"
    using mod_total_canonical [OF P_pos, of "- 3"] by auto
  moreover have "(- 3) mod P = P - 3"
    by (simp add: P_def B256_def)
  ultimately show ?thesis
    using r by simp
qed

subsection \<open>The ladder\<close>

lemma mul_loop_ops_fst: "fst (mul_loop_ops safe d n p f ops) = mul_loop safe d n p f"
proof (induction safe d n p f ops rule: mul_loop_ops.induct)
  case (1 safe d n p f ops)
  show ?case
    using 1 by (subst mul_loop_ops.simps, subst mul_loop.simps) simp
qed

lemma length_bits_lsb: "int (length (bits_lsb n)) = bitlen n"
proof (induction n rule: bits_lsb.induct)
  case (1 n)
  show ?case
  proof (cases "0 < n")
    case True
    then show ?thesis
      using 1 by (subst bits_lsb.simps, subst compute_bitlen) simp
  next
    case False
    then show ?thesis
      by (subst bits_lsb.simps, subst compute_bitlen) simp
  qed
qed

lemma mul_loop_ops_safe:
  "snd (mul_loop_ops True d n p f ops) = ops @ concat (map bit_ops (bits_lsb n))"
proof (induction True d n p f ops rule: mul_loop_ops.induct)
  case (1 d n p f ops)
  show ?case
  proof (cases "0 < n")
    case True
    then show ?thesis
      using 1 by (subst mul_loop_ops.simps, subst bits_lsb.simps)
        (simp add: and_one_eq drop_bit_eq_div odd_iff_mod_2_eq_one)
  next
    case False
    then show ?thesis
      by (subst mul_loop_ops.simps, subst bits_lsb.simps) simp
  qed
qed

lemma length_bit_ops: "length (bit_ops b) = 2"
  by (cases b) simp_all

lemma length_concat_bit_ops: "length (concat (map bit_ops bs)) = 2 * length bs"
  by (induction bs) (simp_all add: length_bit_ops)

lemma mul_ops_safe:
  "ge n \<Longrightarrow> mul_ops d n True = concat (map bit_ops (bits_lsb n))"
  by (simp add: mul_ops_def mul_loop_ops_safe)

lemma mul_ops_points:
  "ge n \<Longrightarrow> mul d n True = Inr (fst (fst (mul_loop_ops True d n ZERO BASE [])))"
  by (simp add: mul_def mul_loop_ops_fst)

text \<open>
  C8, as the code has it. In safe mode every iteration of the ladder performs exactly one
  addition, into the result point when the bit is set and into the fake point when it is
  not, and one doubling; so the operations of \<^verbatim>\<open>mul\<close> on a scalar in \<open>[1, N-1]\<close> are
  \<open>2 * bitlen n\<close>, and two scalars of the same bit length cost the same number of
  additions and doublings.
\<close>

theorem mul_safe_operation_count:
  assumes "ge n" and "ge n'" and "bitlen n = bitlen n'"
  shows "length (mul_ops d n True) = length (mul_ops d n' True)
       \<and> int (length (mul_ops d n True)) = 2 * bitlen n
       \<and> mul_ops d n True = concat (map bit_ops (bits_lsb n))"
proof -
  have "int (length (mul_ops d m True)) = 2 * bitlen m" if "ge m" for m
    using that by (simp add: mul_ops_safe length_concat_bit_ops flip: length_bits_lsb)
  from this [OF assms(1)] this [OF assms(2)] assms(3) show ?thesis
    using assms(1) by (simp add: mul_ops_safe)
qed

lemma ge_numeral_simps: "ge 1" "ge 2" "ge 3" "ge 5" "ge 6" "\<not> ge 0"
  by (simp_all add: ge_def N_def B256_def)

theorem mul_safe_operation_count_witness:
  "ge 5 \<and> ge 6 \<and> bitlen 5 = bitlen 6
   \<and> length (mul_ops BASE 5 True) = length (mul_ops BASE 6 True)
   \<and> int (length (mul_ops BASE 5 True)) = 2 * bitlen 5"
proof -
  have b: "bitlen 5 = bitlen 6"
    by (simp add: compute_bitlen)
  have "length (mul_ops BASE 5 True) = length (mul_ops BASE 6 True)
      \<and> int (length (mul_ops BASE 5 True)) = 2 * bitlen 5"
    using mul_safe_operation_count [OF ge_numeral_simps(4) ge_numeral_simps(5) b, of BASE]
    by blast
  then show ?thesis
    using b ge_numeral_simps(4) ge_numeral_simps(5) by blast
qed

text \<open>
  The claim as the specification words it, that every iteration adds into the result
  point and into the decoy whatever the bit, fails: on the scalar 3 the ladder runs two
  iterations and never adds into the fake point.
\<close>

theorem mul_safe_no_decoy_add_counterexample:
  "mul_ops BASE 3 True = [AddAcc, Dbl, AddAcc, Dbl] \<and> AddFake \<notin> set (mul_ops BASE 3 True)"
  by (simp add: mul_ops_def ge_numeral_simps mul_loop_ops.simps)

subsection \<open>The identity is no ring member\<close>

lemma toAffine_ZERO: "toAffine ZERO = Inr (0, 0)"
  by (simp add: toAffine_def equals_def ZERO_def)

lemma isOnCurve_range:
  "isOnCurve cv (x, y) \<Longrightarrow> 0 < x \<and> x < curveP cv \<and> 0 < y \<and> y < curveP cv"
  by (auto simp: isOnCurve_def split: CurveName.splits if_splits)

lemma firstInvalid_None: "firstInvalid cv ps i = None \<Longrightarrow> p \<in> set ps \<Longrightarrow> validPoint cv p"
  by (induction ps arbitrary: i) (auto split: if_splits)

lemma not_valid_idPoint: "\<not> validPoint cv (idPoint nm)"
  by (auto simp: validPoint_def idPoint_def dest: isOnCurve_range)

text \<open>
  C9, as the code has it. The affine form of the identity is \<open>(0, 0)\<close>; \<^verbatim>\<open>isOnCurve\<close> is
  false for every point with a coordinate outside \<open>(0, P)\<close>; and ring validation rejects
  every ring that contains the identity, with InvalidPoint when its entries are pairwise
  distinct and with DuplicateRingMember when two of them are affine-equal.
\<close>

theorem identity_never_ring_member:
  assumes "idPoint nm \<in> set ring"
  shows "toAffine ZERO = Inr (ptX (idPoint nm), ptY (idPoint nm))
       \<and> toAffine ZERO = Inr (0, 0)
       \<and> (\<forall>x y. \<not> (0 < x \<and> x < curveP cv \<and> 0 < y \<and> y < curveP cv) \<longrightarrow> \<not> isOnCurve cv (x, y))
       \<and> (distinct ring \<longrightarrow> (\<exists>i. checkRing ring cv allowEmpty = Inl (InvalidPoint (Some i))))
       \<and> (\<not> distinct ring \<longrightarrow> checkRing ring cv allowEmpty = Inl DuplicateRingMember)"
proof -
  have ne: "ring \<noteq> []"
    using assms by auto
  have "firstInvalid cv ring 0 \<noteq> None"
    using firstInvalid_None [of cv ring 0 "idPoint nm"] assms not_valid_idPoint by blast
  then have "distinct ring \<longrightarrow> (\<exists>i. checkRing ring cv allowEmpty = Inl (InvalidPoint (Some i)))"
    using ne by (auto simp: checkRing_def)
  moreover have "\<not> distinct ring \<longrightarrow> checkRing ring cv allowEmpty = Inl DuplicateRingMember"
    using ne by (simp add: checkRing_def)
  moreover have "toAffine ZERO = Inr (ptX (idPoint nm), ptY (idPoint nm))"
    by (simp add: toAffine_ZERO idPoint_def)
  ultimately show ?thesis
    using toAffine_ZERO isOnCurve_range by blast
qed

theorem identity_never_ring_member_witness:
  "idPoint SECP256K1 \<in> set [idPoint SECP256K1]
   \<and> distinct [idPoint SECP256K1]
   \<and> checkRing [idPoint SECP256K1] secp256k1 False = Inl (InvalidPoint (Some 0))
   \<and> \<not> isOnCurve secp256k1 (0, 0)"
proof -
  let ?ring = "[idPoint SECP256K1]"
  have m: "idPoint SECP256K1 \<in> set ?ring"
    by simp
  have th: "(\<forall>x y. \<not> (0 < x \<and> x < curveP secp256k1 \<and> 0 < y \<and> y < curveP secp256k1)
              \<longrightarrow> \<not> isOnCurve secp256k1 (x, y))
          \<and> (distinct ?ring \<longrightarrow> (\<exists>i. checkRing ?ring secp256k1 False = Inl (InvalidPoint (Some i))))"
    using identity_never_ring_member [OF m, of secp256k1 False] by blast
  then obtain i where i: "checkRing ?ring secp256k1 False = Inl (InvalidPoint (Some i))"
    by auto
  have "firstInvalid secp256k1 ?ring 0 = Some 0"
    by (simp add: not_valid_idPoint)
  then have "i = 0"
    using i by (simp add: checkRing_def)
  moreover have "\<not> isOnCurve secp256k1 (0, 0)"
    using th by simp
  ultimately show ?thesis
    using i by simp
qed

text \<open>
  The claim as the specification words it, InvalidPoint for every ring that contains the
  identity, fails on a ring that holds the identity twice: the duplicate is reported.
\<close>

theorem identity_twice_counterexample:
  "checkRing [idPoint SECP256K1, idPoint SECP256K1] secp256k1 False = Inl DuplicateRingMember"
  by (simp add: checkRing_def)

section \<open>Properties of the protocol\<close>

lemma bindE_simps [simp]:
  "bindE (Inl e) f = Inl e"
  "bindE (Inr x) f = f x"
  by (simp_all add: bindE_def)


lemma bindE_eq_Inl: "bindE m f = Inl e \<longleftrightarrow> m = Inl e \<or> (\<exists>x. m = Inr x \<and> f x = Inl e)"
  by (cases m) simp_all

lemma nth_js_simps [simp]:
  "i < length xs \<Longrightarrow> nth_js xs i = Inr (xs ! i)"
  "\<not> i < length xs \<Longrightarrow> nth_js xs i = Inl TypeError"
  by (simp_all add: nth_js_def)

lemma small_mod_N: "0 \<le> k \<Longrightarrow> k < 1000 \<Longrightarrow> k mod N = k"
  by (simp add: N_def B256_def)

lemma ge_small: "0 < k \<Longrightarrow> k < 1000 \<Longrightarrow> ge k"
  by (simp add: ge_def N_def B256_def)





text \<open>
  \<^verbatim>\<open>verify\<close> on a ring of one member: \<^verbatim>\<open>verifyPiSignature\<close> receives the challenge in the
  place of the response and the response in the place of the public key, multiplies the
  generator by the challenge and then calls \<^verbatim>\<open>mult\<close> on the response, a bigint.
\<close>

lemma verifyPiSignature_js_typed:
  "verifyPiSignature_js B (BigIntV alpha) (PointV K) (BigIntV c) (BigIntV r)
     = verifyPiSignature B alpha K c r"
  by (simp add: verifyPiSignature_js_def verifyPiSignature_def mult_js_def)

subsection \<open>combine\<close>

text \<open>
  C7. \<^verbatim>\<open>combine\<close> checks no response: with a signer response 0, and with a 0 among the
  responses of the partial signature, it returns a ring signature that holds the 0. (The
  tests of \<^verbatim>\<open>combine\<close> expect "At least one response is not valid" on both inputs.)
\<close>

theorem combine_accepts_zero_response:
  "combine \<lparr>psMessage = ''m'', psRing = [(0, BASE), (1, double BASE)], psC = 2, psCpi = 2,
            psResponses = [5, 7], psPi = 1, psAlpha = 2\<rparr> 0
     = Inr \<lparr>sigMessage = ''m'', sigRing = [(0, BASE), (1, double BASE)], sigC = 2,
            sigResponses = [5, 0]\<rparr>
   \<and> combine \<lparr>psMessage = ''m'', psRing = [(0, BASE), (1, double BASE)], psC = 2, psCpi = 2,
              psResponses = [0, 7], psPi = 1, psAlpha = 2\<rparr> 3
     = Inr \<lparr>sigMessage = ''m'', sigRing = [(0, BASE), (1, double BASE)], sigC = 2,
            sigResponses = [0, 3]\<rparr>"
  by (simp add: combine_def newRingSignature_def)

subsection \<open>The duplicate check of signature\<close>

text \<open>The coordinate-wise loops of the older class find exactly the rings with two equal points.\<close>

lemma dupInner_iff:
  "i < length ring \<Longrightarrow> dupInner ring i j \<longleftrightarrow> (\<exists>k. j \<le> k \<and> k < length ring \<and> ring ! i = ring ! k)"
proof (induction ring i j rule: dupInner.induct)
  case (1 ring i j)
  show ?case
  proof (cases "j < length ring")
    case False
    then show ?thesis
      by (subst dupInner.simps) auto
  next
    case True
    show ?thesis
    proof (cases "ring ! i = ring ! j")
      case eq: True
      then show ?thesis
        using True by (subst dupInner.simps) auto
    next
      case neq: False
      then have ne: "\<not> (fst (ring ! i) = fst (ring ! j) \<and> snd (ring ! i) = snd (ring ! j))"
        by (simp add: prod_eq_iff)
      have "dupInner ring i j = dupInner ring i (Suc j)"
        by (subst dupInner.simps) (use True ne in auto)
      also have "\<dots> \<longleftrightarrow> (\<exists>k. Suc j \<le> k \<and> k < length ring \<and> ring ! i = ring ! k)"
        by (rule "1.IH" [OF True ne "1.prems"])
      also have "\<dots> \<longleftrightarrow> (\<exists>k. j \<le> k \<and> k < length ring \<and> ring ! i = ring ! k)"
        using neq by (metis Suc_leD Suc_leI le_neq_implies_less)
      finally show ?thesis .
    qed
  qed
qed

lemma dupOuter_iff:
  "dupOuter ring i \<longleftrightarrow> (\<exists>a b. i \<le> a \<and> a < b \<and> b < length ring \<and> ring ! a = ring ! b)"
proof (induction ring i rule: dupOuter.induct)
  case (1 ring i)
  show ?case
  proof (cases "i < length ring")
    case False
    then show ?thesis
      by (subst dupOuter.simps) auto
  next
    case True
    show ?thesis
    proof (cases "dupInner ring i (Suc i)")
      case d: True
      then obtain k where "Suc i \<le> k" "k < length ring" "ring ! i = ring ! k"
        using dupInner_iff [OF True] by blast
      then have "\<exists>a b. i \<le> a \<and> a < b \<and> b < length ring \<and> ring ! a = ring ! b"
        by (intro exI [of _ i] exI [of _ k]) simp
      then show ?thesis
        using True d by (subst dupOuter.simps) simp
    next
      case nd: False
      then have no: "\<And>k. Suc i \<le> k \<Longrightarrow> k < length ring \<Longrightarrow> ring ! i \<noteq> ring ! k"
        using dupInner_iff [OF True] by blast
      have "dupOuter ring i = dupOuter ring (Suc i)"
        using True nd by (subst dupOuter.simps) simp
      also have "\<dots> \<longleftrightarrow> (\<exists>a b. Suc i \<le> a \<and> a < b \<and> b < length ring \<and> ring ! a = ring ! b)"
        using "1.IH" [OF True nd] .
      also have "\<dots> \<longleftrightarrow> (\<exists>a b. i \<le> a \<and> a < b \<and> b < length ring \<and> ring ! a = ring ! b)"
      proof
        assume "\<exists>a b. Suc i \<le> a \<and> a < b \<and> b < length ring \<and> ring ! a = ring ! b"
        then show "\<exists>a b. i \<le> a \<and> a < b \<and> b < length ring \<and> ring ! a = ring ! b"
          by (meson Suc_leD)
      next
        assume "\<exists>a b. i \<le> a \<and> a < b \<and> b < length ring \<and> ring ! a = ring ! b"
        then obtain a b where ab: "i \<le> a" "a < b" "b < length ring" "ring ! a = ring ! b"
          by blast
        have "a \<noteq> i"
          using no [of b] ab by auto
        then have "Suc i \<le> a"
          using ab(1) by simp
        with ab show "\<exists>a b. Suc i \<le> a \<and> a < b \<and> b < length ring \<and> ring ! a = ring ! b"
          by blast
      qed
      finally show ?thesis .
    qed
  qed
qed

lemma dupOuter_distinct: "dupOuter ring 0 \<longleftrightarrow> \<not> distinct ring"
proof -
  have "\<not> distinct ring \<longleftrightarrow> (\<exists>a b. a < b \<and> b < length ring \<and> ring ! a = ring ! b)"
  proof
    assume "\<not> distinct ring"
    then obtain a b where "a < length ring" "b < length ring" "a \<noteq> b" "ring ! a = ring ! b"
      by (auto simp: distinct_conv_nth)
    then show "\<exists>a b. a < b \<and> b < length ring \<and> ring ! a = ring ! b"
      by (cases "a < b") (auto intro: exI [of _ a] exI [of _ b], metis linorder_neqE_nat)
  next
    assume "\<exists>a b. a < b \<and> b < length ring \<and> ring ! a = ring ! b"
    then show "\<not> distinct ring"
      by (auto simp: distinct_conv_nth) (metis less_trans nat_neq_iff)
  qed
  then show ?thesis
    by (simp add: dupOuter_iff)
qed


text \<open>
  C6. The duplicate check of \<^verbatim>\<open>signature\<close> compares object references: a ring of two
  objects that hold the same point passes it, the challenges are computed, and \<^verbatim>\<open>sign\<close>
  returns a signature over a ring that holds the point twice; only a ring that holds the
  same object twice is refused.
\<close>

theorem signature_misses_equal_points:
  "map_sum id rawCees
     (signature sampleBackend [(0, BASE), (1, BASE)] (Inl 1) ''m'' sampleDraws 2) = Inr [7, 7, 7]
   \<and> map_sum id (\<lambda>s. (map fst (sigRing s), map snd (tl (sigRing s)), sigC s))
       (sign sampleBackend [(0, BASE), (1, BASE)] 1 ''m'' sampleDraws 2)
       = Inr ([2, 0, 1], [BASE, BASE], 7)
   \<and> signature sampleBackend [(0, BASE), (0, BASE)] (Inl 1) ''m'' sampleDraws 2
       = Inl DuplicateRingMember"
  by (simp add: sign_def signature_def sampleBackend_def noble_def sampleDraws_def derivePubKey_def
      mul_def ge_small ringToString_def computeC_def modulo_def small_mod_N
      piSignature_def newRingSignature_def N_def B256_def
      loopPI1N.simps loop0PI.simps Let_def)

subsection \<open>The errors of verify\<close>

lemma pointMult_opErrors: "pointMult B p k = Inl e \<Longrightarrow> e \<in> opErrors B"
  by (auto simp: opErrors_def)

lemma pointAdd_opErrors: "pointAdd B p q = Inl e \<Longrightarrow> e \<in> opErrors B"
  by (auto simp: opErrors_def)

lemma computeC_Inl: "computeC B ring md G n r c K = Inl e \<Longrightarrow> e \<in> opErrors B"
  by (auto simp: computeC_def bindE_eq_Inl dest: pointMult_opErrors pointAdd_opErrors)

lemma verify_loop_Inl:
  "length responses = length ring \<Longrightarrow> verify_loop B ring md G n responses i c = Inl e
     \<Longrightarrow> e \<in> opErrors B"
proof (induction B ring md G n responses i c rule: verify_loop.induct)
  case (1 B ring md G n responses i c)
  show ?case
  proof (cases "i < length ring")
    case True
    then have "i - 1 < length ring"
      by simp
    with True 1 show ?thesis
      by (subst (asm) (2) verify_loop.simps) (auto simp: bindE_eq_Inl dest: computeC_Inl)
  next
    case False
    with 1 show ?thesis
      by (subst (asm) (2) verify_loop.simps) simp
  qed
qed

lemma opErrors_noble: "opErrors (noble ts kec hb) \<subseteq> {InvalidScalar}"
  by (auto simp: opErrors_def noble_def mul_def split: if_splits)

text \<open>
  C5, as the code has it. \<^verbatim>\<open>verify\<close> raises EmptyRing exactly when the ring is empty and
  RingResponseLengthMismatch exactly when the ring is not empty and its length differs
  from that of the responses. On a ring of more than one member with as many responses it
  returns a boolean, unless a point operation raises: then the error of \<^verbatim>\<open>Point.mult\<close> or
  \<^verbatim>\<open>Point.add\<close> is the error of \<^verbatim>\<open>verify\<close>.
\<close>

theorem verify_errors:
  assumes "EmptyRing \<notin> opErrors B" and "RingResponseLengthMismatch \<notin> opErrors B"
  shows "(verify B s = Inl EmptyRing \<longleftrightarrow> sigRing s = [])
       \<and> (verify B s = Inl RingResponseLengthMismatch
            \<longleftrightarrow> sigRing s \<noteq> [] \<and> length (sigRing s) \<noteq> length (sigResponses s))
       \<and> (1 < length (sigRing s) \<and> length (sigRing s) = length (sigResponses s)
            \<longrightarrow> (\<exists>b. verify B s = Inr b) \<or> (\<exists>e \<in> opErrors B. verify B s = Inl e))"
proof -
  have many: "e \<in> opErrors B"
    if "1 < length (sigRing s)" "length (sigRing s) = length (sigResponses s)" "verify B s = Inl e"
    for e
    using that
    by (auto simp: verify_def Let_def bindE_eq_Inl nth_js_def split: if_splits
        dest: computeC_Inl verify_loop_Inl [rotated])
  have one: "e \<in> opErrors B \<or> e = TypeError"
    if "length (sigRing s) = 1" "length (sigResponses s) = 1" "verify B s = Inl e" for e
  proof -
    from that(1,2) obtain k r where "sigRing s = [k]" "sigResponses s = [r]"
      by (auto simp: length_Suc_conv)
    with that(3) show ?thesis
      by (auto simp: verify_def Let_def verifyPiSignature_js_def mult_js_def bindE_eq_Inl
          dest: pointMult_opErrors)
  qed
  have other: "e \<in> opErrors B \<or> e = TypeError"
    if "sigRing s \<noteq> []" "length (sigRing s) = length (sigResponses s)" "verify B s = Inl e" for e
  proof (cases "1 < length (sigRing s)")
    case True
    with that many show ?thesis
      by blast
  next
    case False
    with that(1) have l1: "length (sigRing s) = 1"
      by (cases "sigRing s") simp_all
    with that(2) have l2: "length (sigResponses s) = 1"
      by simp
    from one [OF l1 l2 that(3)] show ?thesis .
  qed
  have 1: "verify B s = Inl EmptyRing \<longleftrightarrow> sigRing s = []"
    using assms(1) other [of EmptyRing] by (auto simp: verify_def Let_def)
  have 2: "verify B s = Inl RingResponseLengthMismatch
            \<longleftrightarrow> sigRing s \<noteq> [] \<and> length (sigRing s) \<noteq> length (sigResponses s)"
    using assms(2) other [of RingResponseLengthMismatch] by (auto simp: verify_def Let_def)
  have 3: "(\<exists>b. verify B s = Inr b) \<or> (\<exists>e \<in> opErrors B. verify B s = Inl e)"
    if "1 < length (sigRing s)" "length (sigRing s) = length (sigResponses s)"
    using many [OF that] by (cases "verify B s") auto
  from 1 2 3 show ?thesis
    by blast
qed

text \<open>
  On the curve backend the hypotheses hold. A signature of two members that does not close
  its chain is answered with false, and with neither of the two structural errors.
\<close>

theorem verify_errors_witness:
  "EmptyRing \<notin> opErrors sampleBackend \<and> RingResponseLengthMismatch \<notin> opErrors sampleBackend
   \<and> verify sampleBackend \<lparr>sigMessage = ''m'', sigRing = [(0, BASE), (1, double BASE)], sigC = 1,
                           sigResponses = [1, 1]\<rparr> = Inr False
   \<and> verify sampleBackend \<lparr>sigMessage = ''m'', sigRing = [(0, BASE), (1, double BASE)], sigC = 1,
                           sigResponses = [1, 1]\<rparr> \<noteq> Inl EmptyRing
   \<and> (verify sampleBackend \<lparr>sigMessage = ''m'', sigRing = [(0, BASE), (1, double BASE)], sigC = 1,
                            sigResponses = [1]\<rparr> = Inl RingResponseLengthMismatch)"
proof -
  let ?s = "\<lparr>sigMessage = ''m'', sigRing = [(0, BASE), (1, double BASE)], sigC = 1,
             sigResponses = [1, 1]\<rparr>"
  let ?t = "\<lparr>sigMessage = ''m'', sigRing = [(0, BASE), (1, double BASE)], sigC = 1,
             sigResponses = [1]\<rparr>"
  have a: "EmptyRing \<notin> opErrors sampleBackend"
    and b: "RingResponseLengthMismatch \<notin> opErrors sampleBackend"
    using opErrors_noble unfolding sampleBackend_def by blast+
  have v: "verify sampleBackend ?s = Inr False"
    by (simp add: verify_def sampleBackend_def noble_def computeC_def mul_def ge_numeral_simps
        ringToString_def modulo_def small_mod_N verify_loop.simps)
  have e: "verify sampleBackend ?s \<noteq> Inl EmptyRing"
    using verify_errors [OF a b, of ?s] by simp
  have m: "verify sampleBackend ?t = Inl RingResponseLengthMismatch"
    using verify_errors [OF a b, of ?t] by simp
  from a b v e m show ?thesis
    by blast
qed

text \<open>
  The claim as the specification words it fails on a tampered response. The constructor
  accepts a ring of two members with the responses 0 and 1, and \<^verbatim>\<open>verify\<close> of that
  signature raises the error of the scalar multiplication instead of returning false.
  And the empty ring is tested first. The constructor keeps the arrays it is given: when
  the caller adds a response to its array after having constructed a signature over the
  empty ring, the lengths differ and the error is EmptyRing.
\<close>

theorem verify_zero_response_counterexample:
  "newRingSignature ''m'' [(0, BASE), (1, double BASE)] 1 [0, 1]
     = Inr \<lparr>sigMessage = ''m'', sigRing = [(0, BASE), (1, double BASE)], sigC = 1,
            sigResponses = [0, 1]\<rparr>
   \<and> verify sampleBackend \<lparr>sigMessage = ''m'', sigRing = [(0, BASE), (1, double BASE)], sigC = 1,
                           sigResponses = [0, 1]\<rparr> = Inl InvalidScalar
   \<and> newRingSignature ''m'' ([] :: SECP256K1Point pointRef list) 1 []
       = Inr \<lparr>sigMessage = ''m'', sigRing = [], sigC = 1, sigResponses = []\<rparr>
   \<and> verify sampleBackend \<lparr>sigMessage = ''m'', sigRing = [], sigC = 1, sigResponses = [] @ [1]\<rparr>
       = Inl EmptyRing"
  by (simp add: newRingSignature_def verify_def sampleBackend_def noble_def computeC_def mul_def
      ge_numeral_simps)

subsection \<open>The challenge chain\<close>





















subsection \<open>The response of the signer\<close>








subsection \<open>The ring of one member\<close>

text \<open>
  C4. On an empty ring \<^verbatim>\<open>sign\<close> returns a signature of one member, and \<^verbatim>\<open>verify\<close> does not
  accept it. For every signature of one member \<^verbatim>\<open>verify\<close> multiplies the generator by the
  challenge and then throws a TypeError, whatever the response is: it never returns a
  boolean. So it is for the signature that \<^verbatim>\<open>sign\<close> makes from the private key 4 and the
  draw \<open>c = 3\<close> on the integers modulo 11, which \<^verbatim>\<open>verifyPiSignature\<close> accepts when it
  receives the arguments in the places of its declaration, and for the signature that
  \<^verbatim>\<open>sign\<close> makes from the private key 1 and the draw \<open>c = 1\<close> on the curve. (The tests
  of \<^verbatim>\<open>sign\<close> and \<^verbatim>\<open>verify\<close> expect true for a ring of size 1.)
\<close>

theorem verify_ring_of_one_raises:
  "verify B \<lparr>sigMessage = msg, sigRing = [k], sigC = c, sigResponses = [r]\<rparr>
     = bindE (pointMult B (curveGen B) c) (\<lambda>gc. Inl TypeError)
   \<and> verify B \<lparr>sigMessage = msg, sigRing = [k], sigC = c, sigResponses = [r]\<rparr> \<noteq> Inr True
   \<and> sign toyBackend [] 4 ''m'' toyDraws 0
       = Inr \<lparr>sigMessage = ''m'', sigRing = [(0, 4)], sigC = 3, sigResponses = [6]\<rparr>
   \<and> verify toyBackend \<lparr>sigMessage = ''m'', sigRing = [(0, 4)], sigC = 3, sigResponses = [6]\<rparr>
       = Inl TypeError
   \<and> verifyPiSignature toyBackend (modulo (2 * 3 + 1) (curveOrder toyBackend)) 4 3 6 = Inr True
   \<and> sign sampleBackend [] 1 ''m'' sampleDraws 0
       = Inr \<lparr>sigMessage = ''m'', sigRing = [(0, fst (mul_loop True BASE 1 ZERO BASE))], sigC = 1,
              sigResponses = [2]\<rparr>
   \<and> verify sampleBackend
       \<lparr>sigMessage = ''m'', sigRing = [(0, fst (mul_loop True BASE 1 ZERO BASE))], sigC = 1,
        sigResponses = [2]\<rparr> = Inl TypeError"
proof -
  let ?s = "\<lparr>sigMessage = msg, sigRing = [k], sigC = c, sigResponses = [r]\<rparr>"
  have v: "verify B ?s = bindE (pointMult B (curveGen B) c) (\<lambda>gc. Inl TypeError)"
    by (simp add: verify_def Let_def verifyPiSignature_js_def mult_js_def)
  then have nv: "verify B ?s \<noteq> Inr True"
    by (cases "pointMult B (curveGen B) c") simp_all
  have t1: "sign toyBackend [] 4 ''m'' toyDraws 0
       = Inr \<lparr>sigMessage = ''m'', sigRing = [(0, 4)], sigC = 3, sigResponses = [6]\<rparr>"
    by (simp add: sign_def Let_def newRingSignature_def piSignature_def modulo_def toyBackend_def
        toyDraws_def)
  have t2: "verify toyBackend \<lparr>sigMessage = ''m'', sigRing = [(0, 4)], sigC = 3, sigResponses = [6]\<rparr>
       = Inl TypeError"
    by (simp add: verify_def Let_def verifyPiSignature_js_def mult_js_def toyBackend_def)
  have t3: "verifyPiSignature toyBackend (modulo (2 * 3 + 1) (curveOrder toyBackend)) 4 3 6 = Inr True"
    by (simp add: verifyPiSignature_def modulo_def toyBackend_def)
  have c1: "sign sampleBackend [] 1 ''m'' sampleDraws 0
       = Inr \<lparr>sigMessage = ''m'', sigRing = [(0, fst (mul_loop True BASE 1 ZERO BASE))], sigC = 1,
              sigResponses = [2]\<rparr>"
    by (simp add: sign_def Let_def newRingSignature_def piSignature_def modulo_def sampleBackend_def
        sampleDraws_def noble_def mul_def ge_numeral_simps N_def B256_def)
  have c2: "verify sampleBackend
       \<lparr>sigMessage = ''m'', sigRing = [(0, fst (mul_loop True BASE 1 ZERO BASE))], sigC = 1,
        sigResponses = [2]\<rparr> = Inl TypeError"
    by (simp add: verify_def Let_def verifyPiSignature_js_def mult_js_def sampleBackend_def
        noble_def mul_def ge_numeral_simps)
  from v nv t1 t2 t3 c1 c2 show ?thesis
    by blast
qed


subsection \<open>Signing, then verifying\<close>









end
